theory Spec2Isabelle
  imports Main "HOL-Library.Sublist"
begin

section \<open>Ada local node: values, errors and the outside world\<close>

text \<open>
  The node of \<^verbatim>\<open>src/main.py\<close> is embedded function by function. Python values that
  travel through JSON bodies, keyword arguments and tool results are values of \<open>json\<close>
  (JSON numbers are restricted to integers; a dict is an association list whose first
  binding of a key is the binding). An exception is a value \<open>Raised c msg\<close> of \<open>error\<close>,
  \<open>msg\<close> being what \<^verbatim>\<open>str(e)\<close> gives, and a function that can raise returns
  \<open>error + 'a\<close>. Console output (\<^verbatim>\<open>print\<close>) is not modelled.
\<close>

datatype json =
    JNull
  | JBool bool
  | JInt int
  | JStr string
  | JList "json list"
  | JDict "(string \<times> json) list"

datatype exn =
    TypeError
  | AttributeError
  | ValidationError
  | TimeoutExpired
  | IndexError
  | HTTPException int
  | PyException

datatype error = Raised exn string

fun str_of_error :: "error \<Rightarrow> string" where
  "str_of_error (Raised c msg) = msg"

fun is_timeout :: "error \<Rightarrow> bool" where
  "is_timeout (Raised c msg) = (c = TimeoutExpired)"

text \<open>A call returned, rather than raised.\<close>

definition returned :: "'e + 'a \<Rightarrow> bool" where
  "returned r = (case r of Inl e \<Rightarrow> False | Inr v \<Rightarrow> True)"

text \<open>The name of a value's type and a name in single quotes, as error messages show them.\<close>

fun type_name :: "json \<Rightarrow> string" where
  "type_name JNull = ''NoneType''"
| "type_name (JBool b) = ''bool''"
| "type_name (JInt i) = ''int''"
| "type_name (JStr s) = ''str''"
| "type_name (JList xs) = ''list''"
| "type_name (JDict kvs) = ''dict''"

definition quoted :: "string \<Rightarrow> string" where
  "quoted s = [CHR 0x27] @ s @ [CHR 0x27]"

text \<open>Truth value of a Python object, as \<^verbatim>\<open>if x\<close>, \<^verbatim>\<open>x and y\<close> and \<^verbatim>\<open>not x\<close> take it.\<close>

fun truthy :: "json \<Rightarrow> bool" where
  "truthy JNull = False"
| "truthy (JBool b) = b"
| "truthy (JInt i) = (i \<noteq> 0)"
| "truthy (JStr s) = (s \<noteq> [])"
| "truthy (JList xs) = (xs \<noteq> [])"
| "truthy (JDict kvs) = (kvs \<noteq> [])"

subsection \<open>Strings\<close>

text \<open>\<^verbatim>\<open>sub in s\<close> on two strings.\<close>

fun str_contains :: "string \<Rightarrow> string \<Rightarrow> bool" where
  "str_contains sub [] = (sub = [])"
| "str_contains sub (c # cs) = (prefix sub (c # cs) \<or> str_contains sub cs)"

text \<open>\<^verbatim>\<open>s.split(sep)\<close> for a non-empty separator; \<open>cur\<close> is the piece being read, reversed.\<close>

function split_acc :: "string \<Rightarrow> string \<Rightarrow> string \<Rightarrow> string list" where
  "split_acc sep cur [] = [rev cur]"
| "split_acc sep cur (c # cs) =
     (if sep \<noteq> [] \<and> prefix sep (c # cs)
      then rev cur # split_acc sep [] (drop (length sep) (c # cs))
      else split_acc sep (c # cur) cs)"
  by pat_completeness auto
termination
  by (relation "measure (\<lambda>(sep, cur, s). length s)") (auto simp: neq_Nil_conv)

definition split_str :: "string \<Rightarrow> string \<Rightarrow> string list" where
  "split_str sep s = split_acc sep [] s"

text \<open>\<^verbatim>\<open>str(n)\<close> for an integer.\<close>

definition digit_char :: "nat \<Rightarrow> char" where
  "digit_char d = char_of (48 + d)"

function nat_str :: "nat \<Rightarrow> string" where
  "nat_str n = (if n < 10 then [digit_char n] else nat_str (n div 10) @ [digit_char (n mod 10)])"
  by pat_completeness auto
termination
  by (relation "measure (\<lambda>n. n)") auto

definition int_str :: "int \<Rightarrow> string" where
  "int_str i = (if i < 0 then CHR ''-'' # nat_str (nat (- i)) else nat_str (nat i))"

text \<open>
  \<^verbatim>\<open>repr\<close> and \<^verbatim>\<open>str\<close> of a value, as an f-string uses them (ASCII strings: a
  character outside the printable range is written \<^verbatim>\<open>\xNN\<close>).
\<close>

definition hex_digit :: "nat \<Rightarrow> char" where
  "hex_digit d = (if d < 10 then char_of (48 + d) else char_of (87 + d))"

definition repr_char :: "char \<Rightarrow> char \<Rightarrow> string" where
  "repr_char q c =
     (if c = CHR 0x5C then [CHR 0x5C, CHR 0x5C]
      else if c = q then [CHR 0x5C, q]
      else if c = CHR 0x09 then [CHR 0x5C, CHR ''t'']
      else if c = CHR 0x0A then [CHR 0x5C, CHR ''n'']
      else if c = CHR 0x0D then [CHR 0x5C, CHR ''r'']
      else if (of_char c :: nat) < 32 \<or> (of_char c :: nat) = 127
        then [CHR 0x5C, CHR ''x'', hex_digit (of_char c div 16), hex_digit (of_char c mod 16)]
      else [c])"

definition repr_str :: "string \<Rightarrow> string" where
  "repr_str s =
     (let q = (if CHR 0x27 \<in> set s \<and> CHR 0x22 \<notin> set s then CHR 0x22 else CHR 0x27)
      in q # concat (map (repr_char q) s) @ [q])"

fun join_str :: "string \<Rightarrow> string list \<Rightarrow> string" where
  "join_str sep [] = []"
| "join_str sep [x] = x"
| "join_str sep (x # y # ys) = x @ sep @ join_str sep (y # ys)"

fun py_repr :: "json \<Rightarrow> string" where
  "py_repr JNull = ''None''"
| "py_repr (JBool b) = (if b then ''True'' else ''False'')"
| "py_repr (JInt i) = int_str i"
| "py_repr (JStr s) = repr_str s"
| "py_repr (JList xs) = ''['' @ join_str '', '' (map py_repr xs) @ '']''"
| "py_repr (JDict kvs) =
     ''{'' @ join_str '', '' (map (\<lambda>kv. repr_str (fst kv) @ '': '' @ py_repr (snd kv)) kvs) @ ''}''"

fun py_str :: "json \<Rightarrow> string" where
  "py_str (JStr s) = s"
| "py_str v = py_repr v"

subsection \<open>Configuration, bridge state, requests and responses\<close>

text \<open>
  The module constants read from the environment at import time, and \<open>N8N_URL\<close>, which
  \<^verbatim>\<open>tool_n8n_trigger\<close> reads from the environment at each call.
\<close>

record config =
  NODE_ID :: string
  RAILWAY_URL :: string
  AUTH_URL :: string
  SCENT :: string
  POLL_INTERVAL :: int
  N8N_URL :: string

definition CAPABILITIES :: "string list" where
  "CAPABILITIES = [''bark-tts'', ''n8n'', ''local-exec'', ''filesystem'']"

text \<open>
  The global \<^verbatim>\<open>state\<close> dict. A \<open>datetime\<close> is a number of microseconds; \<open>token_expiry\<close> and
  \<open>last_sync\<close> are \<open>None\<close> until first set (\<open>last_sync\<close> holds the instant whose
  \<^verbatim>\<open>isoformat()\<close> the source stores). \<open>token\<close> is whatever the token endpoint's
  \<^verbatim>\<open>access_token\<close> was, \<open>JNull\<close> for Python's \<^verbatim>\<open>None\<close>.
\<close>

type_synonym datetime = int

definition one_hour :: int where
  "one_hour = 3600 * 1000000"

record state =
  token :: json
  token_expiry :: "datetime option"
  registered :: bool
  jobs_processed :: nat
  last_sync :: "datetime option"
  bridge_active :: bool

definition initial_state :: state where
  "initial_state = \<lparr>token = JNull, token_expiry = None, registered = False,
     jobs_processed = 0, last_sync = None, bridge_active = False\<rparr>"

text \<open>
  \<^verbatim>\<open>lifespan\<close> sets the flag of the poll loop before it starts the registration and
  the loop, and clears it when the application shuts down.
\<close>

definition lifespan_startup :: "state \<Rightarrow> state" where
  "lifespan_startup st = st\<lparr>bridge_active := True\<rparr>"


type_synonym kwargs = "(string \<times> json) list"

record MCPRequest =
  req_jsonrpc :: string
  req_id :: "int option"
  req_method :: string
  req_params :: "kwargs option"

record MCPResponse =
  rsp_jsonrpc :: string
  rsp_id :: "int option"
  result :: "json option"
  error :: "json option"

record ToolCall =
  call_tool :: string
  call_args :: kwargs

record HiveJob =
  job_id :: string
  tool :: string
  args :: kwargs
  callback_url :: "string option"

text \<open>
  What the outside world answers. An HTTP call either raises (transport failure) or
  returns a response, of which the source reads the status code, the \<^verbatim>\<open>location\<close>
  header and \<^verbatim>\<open>resp.json()\<close> (which itself may raise). A subprocess either raises or
  completes. What the node does to the world is recorded as a list of events, oldest
  first.
\<close>

record response =
  status_code :: int
  location :: "string option"
  json_body :: "error + json"

record completed_process =
  stdout :: string
  stderr :: string
  returncode :: int

datatype event =
    HttpPost string "string option" json
  | HttpGet string "string option"
  | Subprocess json
  | FileRead json
  | FileWrite json json
  | ListDir json
  | Sleep int

section \<open>Tools\<close>

text \<open>
  The answers of the outside world to the calls a tool handler makes: the two
  subprocesses of \<^verbatim>\<open>tool_bark_tts\<close> and the timestamp \<^verbatim>\<open>strftime\<close> formats between
  them, the webhook POST of \<^verbatim>\<open>tool_n8n_trigger\<close>, the shell command of
  \<^verbatim>\<open>tool_local_exec\<close>, and the file operations of \<^verbatim>\<open>tool_filesystem\<close> (opening and
  reading, opening and writing, listing a directory).
\<close>

record handler_env =
  bark_check :: "error + completed_process"
  bark_stamp :: string
  bark_generate :: "error + completed_process"
  n8n_post :: "error + response"
  shell_run :: "error + completed_process"
  file_read :: "error + string"
  file_write :: "error + unit"
  listdir :: "error + string list"

definition error_result :: "error \<Rightarrow> json" where
  "error_result e = JDict [(''error'', JStr (str_of_error e))]"

definition bark_check_cmd :: json where
  "bark_check_cmd = JList [JStr ''python'', JStr ''-c'',
     JStr (''import bark; print('' @ [CHR 0x27] @ ''ok'' @ [CHR 0x27] @ '')'')]"

definition bark_script :: "string \<Rightarrow> string \<Rightarrow> string \<Rightarrow> string" where
  "bark_script text voice output_path =
     [CHR 0x0A] @ ''import bark'' @ [CHR 0x0A]
     @ ''bark.SAMPLE_RATE = 24000'' @ [CHR 0x0A]
     @ ''audio = bark.generate_audio('' @ [CHR 0x22] @ text @ [CHR 0x22]
     @ '', history_prompt='' @ [CHR 0x22] @ voice @ [CHR 0x22] @ '')'' @ [CHR 0x0A]
     @ ''bark.write_wav('' @ [CHR 0x22] @ output_path @ [CHR 0x22]
     @ '', bark.SAMPLE_RATE, audio)'' @ [CHR 0x0A]
     @ ''print('' @ [CHR 0x22] @ ''done'' @ [CHR 0x22] @ '')'' @ [CHR 0x0A]"

definition tool_bark_tts :: "handler_env \<Rightarrow> json \<Rightarrow> json \<Rightarrow> (error + json) \<times> event list" where
  "tool_bark_tts env text voice =
     (case bark_check env of
        Inl e \<Rightarrow> (Inr (error_result e), [Subprocess bark_check_cmd])
      | Inr res \<Rightarrow>
          if \<not> str_contains ''ok'' (stdout res)
          then (Inr (JDict [(''error'', JStr ''Bark not installed''),
                            (''hint'', JStr ''pip install bark'')]),
                [Subprocess bark_check_cmd])
          else
            let output_path = ''/tmp/bark_'' @ bark_stamp env @ ''.wav'';
                cmd = JList [JStr ''python'', JStr ''-c'',
                             JStr (bark_script (py_str text) (py_str voice) output_path)]
            in (case bark_generate env of
                  Inl e \<Rightarrow> (Inr (error_result e), [Subprocess bark_check_cmd, Subprocess cmd])
                | Inr finished \<Rightarrow>
                    (Inr (JDict [(''audio_path'', JStr output_path),
                                 (''status'', JStr ''generated'')]),
                     [Subprocess bark_check_cmd, Subprocess cmd])))"

definition tool_n8n_trigger ::
  "config \<Rightarrow> handler_env \<Rightarrow> json \<Rightarrow> json \<Rightarrow> (error + json) \<times> event list" where
  "tool_n8n_trigger cfg env workflow payload =
     (let ev = [HttpPost (N8N_URL cfg @ ''/webhook/'' @ py_str workflow) None payload]
      in case n8n_post env of
           Inl e \<Rightarrow> (Inr (error_result e), ev)
         | Inr resp \<Rightarrow>
             (case json_body resp of
                Inl e \<Rightarrow> (Inr (error_result e), ev)
              | Inr body \<Rightarrow>
                  (Inr (JDict [(''status'', JInt (status_code resp)), (''result'', body)]), ev)))"

definition dangerous :: "string list" where
  "dangerous = [''rm -rf'', ''dd if='', ''mkfs'', ''> /dev/'', ''chmod 777'']"

text \<open>
  \<^verbatim>\<open>d in command\<close> for a string \<open>d\<close>: a substring test on a string, membership in a
  list, a key test on a dict, and \<^verbatim>\<open>TypeError\<close> on a value that is not iterable.
\<close>

fun py_in :: "string \<Rightarrow> json \<Rightarrow> error + bool" where
  "py_in d (JStr s) = Inr (str_contains d s)"
| "py_in d (JList xs) = Inr (JStr d \<in> set xs)"
| "py_in d (JDict kvs) = Inr (d \<in> set (map fst kvs))"
| "py_in d v =
     Inl (Raised TypeError (''argument of type '' @ quoted (type_name v) @ '' is not iterable''))"

text \<open>\<^verbatim>\<open>any(d in command for d in ds)\<close>: stops at the first hit.\<close>

fun any_in :: "string list \<Rightarrow> json \<Rightarrow> error + bool" where
  "any_in [] command = Inr False"
| "any_in (d # ds) command =
     (case py_in d command of
        Inl e \<Rightarrow> Inl e
      | Inr hit \<Rightarrow> if hit then Inr True else any_in ds command)"

definition tool_local_exec :: "handler_env \<Rightarrow> json \<Rightarrow> json \<Rightarrow> (error + json) \<times> event list" where
  "tool_local_exec env command safe_mode =
     (case (if truthy safe_mode then any_in dangerous command else Inr False) of
        Inl e \<Rightarrow> (Inl e, [])
      | Inr blocked \<Rightarrow>
          if blocked
          then (Inr (JDict [(''error'', JStr ''Command blocked by safe_mode''),
                            (''command'', command)]), [])
          else
            (case shell_run env of
               Inl e \<Rightarrow>
                 (Inr (if is_timeout e
                       then JDict [(''error'', JStr ''Command timed out (60s)'')]
                       else error_result e),
                  [Subprocess command])
             | Inr res \<Rightarrow>
                 (Inr (JDict [(''stdout'', JStr (take 10000 (stdout res))),
                              (''stderr'', JStr (take 2000 (stderr res))),
                              (''exit_code'', JInt (returncode res))]),
                  [Subprocess command])))"

definition tool_filesystem ::
  "handler_env \<Rightarrow> json \<Rightarrow> json \<Rightarrow> json \<Rightarrow> (error + json) \<times> event list" where
  "tool_filesystem env action path content =
     (if action = JStr ''read'' then
        (case file_read env of
           Inl e \<Rightarrow> (Inr (error_result e), [FileRead path])
         | Inr text \<Rightarrow> (Inr (JDict [(''content'', JStr (take 50000 text))]), [FileRead path]))
      else if action = JStr ''write'' then
        (case file_write env of
           Inl e \<Rightarrow> (Inr (error_result e), [FileWrite path content])
         | Inr u \<Rightarrow>
             (Inr (JDict [(''status'', JStr ''written''), (''path'', path)]),
              [FileWrite path content]))
      else if action = JStr ''list'' then
        (case listdir env of
           Inl e \<Rightarrow> (Inr (error_result e), [ListDir path])
         | Inr items \<Rightarrow>
             (Inr (JDict [(''items'', JList (map JStr (take 100 items)))]), [ListDir path]))
      else (Inr (JDict [(''error'', JStr (''Unknown action: '' @ py_str action))]), []))"

subsection \<open>Calling a handler with keyword arguments\<close>

text \<open>
  \<^verbatim>\<open>tool_fn(**kwargs)\<close> binds the keywords to the handler's parameters before the body
  runs: a keyword that is no parameter, or a parameter without default that gets no
  keyword, raises \<^verbatim>\<open>TypeError\<close> at the call. A signature lists each parameter with
  its default, if it has one.
\<close>

type_synonym signature = "(string \<times> json option) list"

fun quote_names :: "string list \<Rightarrow> string" where
  "quote_names [] = []"
| "quote_names [a] = quoted a"
| "quote_names [a, b] = quoted a @ '' and '' @ quoted b"
| "quote_names (a # b # c # ds) =
     (if ds = [] then quoted a @ '', '' @ quoted b @ '', and '' @ quoted c
      else quoted a @ '', '' @ quote_names (b # c # ds))"

definition check_call :: "string \<Rightarrow> signature \<Rightarrow> kwargs \<Rightarrow> error option" where
  "check_call fname sig kw =
     (let unexpected = filter (\<lambda>k. k \<notin> set (map fst sig)) (map fst kw);
          missing = filter (\<lambda>p. p \<notin> set (map fst kw))
                      (map fst (filter (\<lambda>pd. snd pd = None) sig))
      in if unexpected \<noteq> [] then
           Some (Raised TypeError (fname @ ''() got an unexpected keyword argument ''
                   @ quoted (hd unexpected)))
         else if missing \<noteq> [] then
           Some (Raised TypeError (fname @ ''() missing '' @ nat_str (length missing)
                   @ '' required positional argument''
                   @ (if length missing = 1 then [] else ''s'') @ '': ''
                   @ quote_names missing))
         else None)"

definition arg :: "signature \<Rightarrow> kwargs \<Rightarrow> string \<Rightarrow> json" where
  "arg sig kw p =
     (case map_of kw p of
        Some v \<Rightarrow> v
      | None \<Rightarrow> (case map_of sig p of Some (Some d) \<Rightarrow> d | _ \<Rightarrow> JNull))"

definition sig_bark_tts :: signature where
  "sig_bark_tts = [(''text'', None), (''voice'', Some (JStr ''v2/en_speaker_6''))]"

definition sig_n8n_trigger :: signature where
  "sig_n8n_trigger = [(''workflow'', None), (''payload'', Some (JDict []))]"

definition sig_local_exec :: signature where
  "sig_local_exec = [(''command'', None), (''safe_mode'', Some (JBool True))]"

definition sig_filesystem :: signature where
  "sig_filesystem = [(''action'', None), (''path'', None), (''content'', Some JNull)]"

type_synonym handler = "config \<Rightarrow> handler_env \<Rightarrow> kwargs \<Rightarrow> (error + json) \<times> event list"

definition call_bark_tts :: handler where
  "call_bark_tts cfg env kw =
     (case check_call ''tool_bark_tts'' sig_bark_tts kw of
        Some e \<Rightarrow> (Inl e, [])
      | None \<Rightarrow> tool_bark_tts env (arg sig_bark_tts kw ''text'') (arg sig_bark_tts kw ''voice''))"

definition call_n8n_trigger :: handler where
  "call_n8n_trigger cfg env kw =
     (case check_call ''tool_n8n_trigger'' sig_n8n_trigger kw of
        Some e \<Rightarrow> (Inl e, [])
      | None \<Rightarrow> tool_n8n_trigger cfg env (arg sig_n8n_trigger kw ''workflow'')
                  (arg sig_n8n_trigger kw ''payload''))"

definition call_local_exec :: handler where
  "call_local_exec cfg env kw =
     (case check_call ''tool_local_exec'' sig_local_exec kw of
        Some e \<Rightarrow> (Inl e, [])
      | None \<Rightarrow> tool_local_exec env (arg sig_local_exec kw ''command'')
                  (arg sig_local_exec kw ''safe_mode''))"

definition call_filesystem :: handler where
  "call_filesystem cfg env kw =
     (case check_call ''tool_filesystem'' sig_filesystem kw of
        Some e \<Rightarrow> (Inl e, [])
      | None \<Rightarrow> tool_filesystem env (arg sig_filesystem kw ''action'')
                  (arg sig_filesystem kw ''path'') (arg sig_filesystem kw ''content''))"

text \<open>The tool registry, in the order of the dict literal.\<close>

record tool_info =
  fn :: handler
  description :: string
  tool_params :: "(string \<times> string) list"

definition TOOLS :: "(string \<times> tool_info) list" where
  "TOOLS =
     [(''bark_tts'', \<lparr>fn = call_bark_tts,
         description = ''Generate speech from text using Bark TTS'',
         tool_params = [(''text'', ''string''), (''voice'', ''string (optional)'')]\<rparr>),
      (''n8n_trigger'', \<lparr>fn = call_n8n_trigger,
         description = ''Trigger n8n workflow by webhook name'',
         tool_params = [(''workflow'', ''string''), (''payload'', ''object (optional)'')]\<rparr>),
      (''local_exec'', \<lparr>fn = call_local_exec,
         description = ''Execute local shell command'',
         tool_params = [(''command'', ''string''), (''safe_mode'', ''boolean (default true)'')]\<rparr>),
      (''filesystem'', \<lparr>fn = call_filesystem,
         description = ''Read/write/list filesystem'',
         tool_params = [(''action'', ''read|write|list''), (''path'', ''string''),
                        (''content'', ''string (for write)'')]\<rparr>)]"

section \<open>Railway bridge\<close>

subsection \<open>\<^verbatim>\<open>get_token\<close>\<close>

text \<open>
  The clock reading of the expiry test, the answers of the authorization and of the
  token endpoint, and the clock reading taken when the new token is stored.
\<close>

record auth_env =
  now_check :: datetime
  authorize_out :: "error + response"
  token_out :: "error + response"
  now_issue :: datetime

text \<open>
  \<^verbatim>\<open>state["token"] and state["token_expiry"] and datetime.now() < state["token_expiry"]\<close>
\<close>

definition token_valid :: "state \<Rightarrow> datetime \<Rightarrow> bool" where
  "token_valid st now =
     (truthy (token st) \<and> (case token_expiry st of None \<Rightarrow> False | Some expiry \<Rightarrow> now < expiry))"

text \<open>
  \<^verbatim>\<open>location.split("code=")[1].split("&")[0]\<close> when \<^verbatim>\<open>"code=" in location\<close>,
  else \<^verbatim>\<open>None\<close>; an index out of range raises.
\<close>

definition extract_code :: "string \<Rightarrow> error + string option" where
  "extract_code loc =
     (if str_contains ''code='' loc then
        (case split_str ''code='' loc of
           before # after # rest \<Rightarrow>
             (case split_str ''&'' after of
                code # others \<Rightarrow> Inr (Some code)
              | [] \<Rightarrow> Inl (Raised IndexError ''list index out of range''))
         | short \<Rightarrow> Inl (Raised IndexError ''list index out of range''))
      else Inr None)"

text \<open>\<^verbatim>\<open>obj.get(key, default)\<close>: only a dict has the method.\<close>

fun py_get :: "json \<Rightarrow> string \<Rightarrow> json \<Rightarrow> error + json" where
  "py_get (JDict kvs) k d = Inr (case map_of kvs k of Some v \<Rightarrow> v | None \<Rightarrow> d)"
| "py_get v k d =
     Inl (Raised AttributeError
            (quoted (type_name v) @ '' object has no attribute '' @ quoted ''get''))"

definition authorize_form :: "config \<Rightarrow> json" where
  "authorize_form cfg = JDict
     [(''client_id'', JStr (''node-'' @ NODE_ID cfg)),
      (''redirect_uri'', JStr ''http://localhost:8000/callback''),
      (''scope'', JStr ''read write full''),
      (''state'', JStr (NODE_ID cfg)),
      (''code_challenge'', JStr ''local''),
      (''code_challenge_method'', JStr ''S256''),
      (''scent'', JStr (SCENT cfg)),
      (''action'', JStr ''auth'')]"

definition token_form :: "config \<Rightarrow> string \<Rightarrow> json" where
  "token_form cfg code = JDict
     [(''grant_type'', JStr ''authorization_code''),
      (''code'', JStr code),
      (''client_id'', JStr (''node-'' @ NODE_ID cfg)),
      (''redirect_uri'', JStr ''http://localhost:8000/callback'')]"

definition authorize_request :: "config \<Rightarrow> event" where
  "authorize_request cfg = HttpPost (AUTH_URL cfg @ ''/authorize'') None (authorize_form cfg)"

definition token_request :: "config \<Rightarrow> string \<Rightarrow> event" where
  "token_request cfg code = HttpPost (AUTH_URL cfg @ ''/token'') None (token_form cfg code)"

definition exchange_code ::
  "config \<Rightarrow> auth_env \<Rightarrow> state \<Rightarrow> string \<Rightarrow> (error + json) \<times> state \<times> event list" where
  "exchange_code cfg env st code =
     (let ev = [authorize_request cfg, token_request cfg code]
      in case token_out env of
           Inl e \<Rightarrow> (Inl e, st, ev)
         | Inr resp \<Rightarrow>
             (case json_body resp of
                Inl e \<Rightarrow> (Inl e, st, ev)
              | Inr token_data \<Rightarrow>
                  (case py_get token_data ''access_token'' JNull of
                     Inl e \<Rightarrow> (Inl e, st, ev)
                   | Inr tok \<Rightarrow>
                       (Inr tok,
                        st\<lparr>token := tok, token_expiry := Some (now_issue env + one_hour)\<rparr>,
                        ev))))"

definition get_token ::
  "config \<Rightarrow> auth_env \<Rightarrow> state \<Rightarrow> (error + json) \<times> state \<times> event list" where
  "get_token cfg env st =
     (if token_valid st (now_check env) then (Inr (token st), st, [])
      else
        (case authorize_out env of
           Inl e \<Rightarrow> (Inl e, st, [authorize_request cfg])
         | Inr resp \<Rightarrow>
             (case extract_code (case location resp of None \<Rightarrow> [] | Some loc \<Rightarrow> loc) of
                Inl e \<Rightarrow> (Inl e, st, [authorize_request cfg])
              | Inr None \<Rightarrow>
                  (Inl (Raised PyException ''Failed to get auth code''), st,
                   [authorize_request cfg])
              | Inr (Some code) \<Rightarrow>
                  if code = []
                  then (Inl (Raised PyException ''Failed to get auth code''), st,
                        [authorize_request cfg])
                  else exchange_code cfg env st code)))"

definition bearer :: "json \<Rightarrow> string option" where
  "bearer tok = Some (''Bearer '' @ py_str tok)"

subsection \<open>\<^verbatim>\<open>register_node\<close>\<close>

record register_env =
  register_auth :: auth_env
  register_out :: "error + response"

definition register_request :: "config \<Rightarrow> json \<Rightarrow> event" where
  "register_request cfg tok =
     HttpPost (RAILWAY_URL cfg @ ''/nodes/register'') (bearer tok)
       (JDict [(''node_id'', JStr (NODE_ID cfg)),
               (''capabilities'', JList (map JStr CAPABILITIES)),
               (''callback_url'', JStr ''http://localhost:8000/invoke'')])"

text \<open>The body of the \<^verbatim>\<open>try\<close>.\<close>

definition register_try ::
  "config \<Rightarrow> register_env \<Rightarrow> state \<Rightarrow> (error + unit) \<times> state \<times> event list" where
  "register_try cfg env st =
     (let (r, st1, ev) = get_token cfg (register_auth env) st
      in case r of
           Inl e \<Rightarrow> (Inl e, st1, ev)
         | Inr tok \<Rightarrow>
             (case register_out env of
                Inl e \<Rightarrow> (Inl e, st1, ev @ [register_request cfg tok])
              | Inr resp \<Rightarrow>
                  if status_code resp = 200
                  then (Inr (), st1\<lparr>registered := True\<rparr>, ev @ [register_request cfg tok])
                  else (Inr (), st1, ev @ [register_request cfg tok])))"

text \<open>\<^verbatim>\<open>except Exception\<close> prints and falls through.\<close>

definition register_node ::
  "config \<Rightarrow> register_env \<Rightarrow> state \<Rightarrow> (error + unit) \<times> state \<times> event list" where
  "register_node cfg env st =
     (let (r, st1, ev) = register_try cfg env st
      in case r of
           Inl e \<Rightarrow> (Inr (), st1, ev)
         | Inr u \<Rightarrow> (Inr (), st1, ev))"

subsection \<open>\<^verbatim>\<open>process_job\<close>\<close>

record job_env =
  handler_out :: handler_env
  report_auth :: auth_env
  report_out :: "error + response"

definition result_request :: "config \<Rightarrow> json \<Rightarrow> string \<Rightarrow> json \<Rightarrow> event" where
  "result_request cfg tok jid res =
     HttpPost (RAILWAY_URL cfg @ ''/nodes/'' @ NODE_ID cfg @ ''/result'') (bearer tok)
       (JDict [(''job_id'', JStr jid), (''result'', res)])"

text \<open>The body of the \<^verbatim>\<open>try\<close> that reports the result.\<close>

definition report_try ::
  "config \<Rightarrow> job_env \<Rightarrow> HiveJob \<Rightarrow> json \<Rightarrow> state \<Rightarrow> (error + unit) \<times> state \<times> event list" where
  "report_try cfg env job res st =
     (let (r, st1, ev) = get_token cfg (report_auth env) st
      in case r of
           Inl e \<Rightarrow> (Inl e, st1, ev)
         | Inr tok \<Rightarrow>
             (case report_out env of
                Inl e \<Rightarrow> (Inl e, st1, ev @ [result_request cfg tok (job_id job) res])
              | Inr resp \<Rightarrow>
                  (Inr (), st1\<lparr>jobs_processed := jobs_processed st1 + 1\<rparr>,
                   ev @ [result_request cfg tok (job_id job) res])))"

text \<open>The lookup and the call of the handler, which no \<^verbatim>\<open>try\<close> encloses.\<close>

definition run_tool ::
  "config \<Rightarrow> handler_env \<Rightarrow> HiveJob \<Rightarrow> (error + json) \<times> event list" where
  "run_tool cfg env job =
     (case map_of TOOLS (tool job) of
        None \<Rightarrow> (Inr (JDict [(''error'', JStr ''Unknown tool'')]), [])
      | Some info \<Rightarrow> fn info cfg env (args job))"

definition process_job ::
  "config \<Rightarrow> job_env \<Rightarrow> HiveJob \<Rightarrow> state \<Rightarrow> (error + unit) \<times> state \<times> event list" where
  "process_job cfg env job st =
     (let (r, ev) = run_tool cfg (handler_out env) job
      in case r of
           Inl e \<Rightarrow> (Inl e, st, ev)
         | Inr res \<Rightarrow>
             (let (r2, st1, ev2) = report_try cfg env job res st
              in case r2 of
                   Inl e \<Rightarrow> (Inr (), st1, ev @ ev2)
                 | Inr u \<Rightarrow> (Inr (), st1, ev @ ev2)))"

subsection \<open>\<^verbatim>\<open>poll_for_work\<close>\<close>

text \<open>\<^verbatim>\<open>for job in jobs\<close>: what iterating over the decoded body yields.\<close>

fun py_iter :: "json \<Rightarrow> error + json list" where
  "py_iter (JList xs) = Inr xs"
| "py_iter (JDict kvs) = Inr (map (\<lambda>kv. JStr (fst kv)) kvs)"
| "py_iter (JStr s) = Inr (map (\<lambda>c. JStr [c]) s)"
| "py_iter v = Inl (Raised TypeError (quoted (type_name v) @ '' object is not iterable''))"

text \<open>
  \<^verbatim>\<open>HiveJob(**job)\<close>: \<open>job\<close> must be a mapping, and the model validates its fields
  (\<^verbatim>\<open>job_id: str\<close>, \<^verbatim>\<open>tool: str\<close>, \<^verbatim>\<open>args: Dict[str, Any]\<close>, all required, and
  \<^verbatim>\<open>callback_url: Optional[str] = None\<close>; other keys are ignored). A field of the wrong
  type is rejected, as pydantic does without coercion.
\<close>

definition parse_HiveJob :: "json \<Rightarrow> error + HiveJob" where
  "parse_HiveJob job =
     (case job of
        JDict kvs \<Rightarrow>
          (case (map_of kvs ''job_id'', map_of kvs ''tool'', map_of kvs ''args'') of
             (Some (JStr jid), Some (JStr t), Some (JDict a)) \<Rightarrow>
               (case map_of kvs ''callback_url'' of
                  None \<Rightarrow> Inr \<lparr>job_id = jid, tool = t, args = a, callback_url = None\<rparr>
                | Some JNull \<Rightarrow> Inr \<lparr>job_id = jid, tool = t, args = a, callback_url = None\<rparr>
                | Some (JStr u) \<Rightarrow> Inr \<lparr>job_id = jid, tool = t, args = a, callback_url = Some u\<rparr>
                | Some v \<Rightarrow> Inl (Raised ValidationError ''validation error for HiveJob''))
           | other \<Rightarrow> Inl (Raised ValidationError ''validation error for HiveJob''))
      | v \<Rightarrow>
          Inl (Raised TypeError (''argument after ** must be a mapping, not '' @ type_name v)))"

text \<open>
  The answers of one poll: those of \<^verbatim>\<open>get_token\<close>, the answer to the request for
  pending jobs, the answers each job of the batch gets (by its position in the batch),
  the clock reading stored in \<open>last_sync\<close>, and whether the shutdown of the application
  (\<^verbatim>\<open>state["bridge_active"] = False\<close> in \<^verbatim>\<open>lifespan\<close>) happens while this iteration is
  suspended.
\<close>

record poll_env =
  poll_auth :: auth_env
  pending_out :: "error + response"
  job_envs :: "nat \<Rightarrow> job_env"
  now_sync :: datetime
  shutdown :: bool

text \<open>The \<^verbatim>\<open>for\<close> loop over the batch; an exception leaves it.\<close>

fun run_jobs ::
  "config \<Rightarrow> (nat \<Rightarrow> job_env) \<Rightarrow> nat \<Rightarrow> json list \<Rightarrow> state \<Rightarrow> (error + unit) \<times> state \<times> event list"
where
  "run_jobs cfg envs i [] st = (Inr (), st, [])"
| "run_jobs cfg envs i (j # js) st =
     (case parse_HiveJob j of
        Inl e \<Rightarrow> (Inl e, st, [])
      | Inr job \<Rightarrow>
          (let (r, st1, ev) = process_job cfg (envs i) job st
           in case r of
                Inl e \<Rightarrow> (Inl e, st1, ev)
              | Inr u \<Rightarrow>
                  (let (r2, st2, ev2) = run_jobs cfg envs (Suc i) js st1
                   in (r2, st2, ev @ ev2))))"

definition pending_request :: "config \<Rightarrow> json \<Rightarrow> event" where
  "pending_request cfg tok =
     HttpGet (RAILWAY_URL cfg @ ''/nodes/'' @ NODE_ID cfg @ ''/pending'') (bearer tok)"

text \<open>\<^verbatim>\<open>if resp.status_code == 200: ...\<close>, the statement under the \<^verbatim>\<open>async with\<close>.\<close>

definition handle_pending ::
  "config \<Rightarrow> poll_env \<Rightarrow> response \<Rightarrow> state \<Rightarrow> (error + unit) \<times> state \<times> event list" where
  "handle_pending cfg env resp st =
     (if status_code resp = 200 then
        (case json_body resp of
           Inl e \<Rightarrow> (Inl e, st, [])
         | Inr jobs \<Rightarrow>
             (case py_iter jobs of
                Inl e \<Rightarrow> (Inl e, st, [])
              | Inr items \<Rightarrow> run_jobs cfg (job_envs env) 0 items st))
      else (Inr (), st, []))"

text \<open>The body of the \<^verbatim>\<open>try\<close> of one iteration.\<close>

definition poll_try ::
  "config \<Rightarrow> poll_env \<Rightarrow> state \<Rightarrow> (error + unit) \<times> state \<times> event list" where
  "poll_try cfg env st =
     (let (r, st1, ev) = get_token cfg (poll_auth env) st
      in case r of
           Inl e \<Rightarrow> (Inl e, st1, ev)
         | Inr tok \<Rightarrow>
             (case pending_out env of
                Inl e \<Rightarrow> (Inl e, st1, ev @ [pending_request cfg tok])
              | Inr resp \<Rightarrow>
                  (let (r2, st2, ev2) = handle_pending cfg env resp st1
                   in case r2 of
                        Inl e \<Rightarrow> (Inl e, st2, ev @ [pending_request cfg tok] @ ev2)
                      | Inr u \<Rightarrow>
                          (Inr (), st2\<lparr>last_sync := Some (now_sync env)\<rparr>,
                           ev @ [pending_request cfg tok] @ ev2))))"

text \<open>One iteration: the \<^verbatim>\<open>try\<close>, its \<^verbatim>\<open>except Exception\<close>, and the sleep.\<close>

definition poll_iteration :: "config \<Rightarrow> poll_env \<Rightarrow> state \<Rightarrow> state \<times> event list" where
  "poll_iteration cfg env st =
     (let (r, st1, ev) = poll_try cfg env st
      in case r of
           Inl e \<Rightarrow> (st1, ev @ [Sleep (POLL_INTERVAL cfg)])
         | Inr u \<Rightarrow> (st1, ev @ [Sleep (POLL_INTERVAL cfg)]))"



section \<open>FastAPI endpoints\<close>

text \<open>
  An endpoint function returns its response body or raises. \<^verbatim>\<open>HTTPException\<close> is the
  framework's way to answer with an error status; any other exception leaves the
  endpoint unhandled. The health, status and event-stream endpoints only read the
  bridge state and are left out.
\<close>

fun unhandled :: "error \<Rightarrow> bool" where
  "unhandled (Raised (HTTPException code) msg) = False"
| "unhandled (Raised c msg) = True"

definition tool_listing :: "json" where
  "tool_listing = JList (map (\<lambda>(name, info).
       JDict [(''name'', JStr name),
              (''description'', JStr (description info)),
              (''inputSchema'',
                 JDict [(''type'', JStr ''object''),
                        (''properties'',
                           JDict (map (\<lambda>(k, v). (k, JStr v)) (tool_params info)))])]) TOOLS)"

definition list_tools :: json where
  "list_tools = JDict [(''tools'', tool_listing)]"

definition invoke_tool ::
  "config \<Rightarrow> handler_env \<Rightarrow> ToolCall \<Rightarrow> (error + json) \<times> event list" where
  "invoke_tool cfg env call =
     (case map_of TOOLS (call_tool call) of
        None \<Rightarrow> (Inl (Raised (HTTPException 404) (''Tool not found: '' @ call_tool call)), [])
      | Some info \<Rightarrow>
          (let (r, ev) = fn info cfg env (call_args call)
           in case r of
                Inl e \<Rightarrow> (Inl e, ev)
              | Inr res \<Rightarrow> (Inr (JDict [(''result'', res)]), ev)))"

text \<open>
  \<^verbatim>\<open>tool_name not in TOOLS\<close> and \<^verbatim>\<open>TOOLS[tool_name]\<close> on an arbitrary value: a list or
  a dict cannot be hashed and the test raises; no other value than a string equals a
  key of the registry.
\<close>

fun tools_lookup :: "json \<Rightarrow> error + tool_info option" where
  "tools_lookup (JStr name) = Inr (map_of TOOLS name)"
| "tools_lookup (JList xs) = Inl (Raised TypeError (''unhashable type: '' @ quoted ''list''))"
| "tools_lookup (JDict kvs) = Inl (Raised TypeError (''unhashable type: '' @ quoted ''dict''))"
| "tools_lookup v = Inr None"

text \<open>\<^verbatim>\<open>**tool_args\<close>: the value must be a mapping.\<close>

fun kwargs_of :: "json \<Rightarrow> error + kwargs" where
  "kwargs_of (JDict kvs) = Inr kvs"
| "kwargs_of v =
     Inl (Raised TypeError (''argument after ** must be a mapping, not '' @ type_name v))"

definition rpc_result :: "int option \<Rightarrow> json \<Rightarrow> MCPResponse" where
  "rpc_result i r = \<lparr>rsp_jsonrpc = ''2.0'', rsp_id = i, result = Some r, error = None\<rparr>"

definition rpc_error :: "int option \<Rightarrow> int \<Rightarrow> string \<Rightarrow> MCPResponse" where
  "rpc_error i code msg = \<lparr>rsp_jsonrpc = ''2.0'', rsp_id = i, result = None,
     error = Some (JDict [(''code'', JInt code), (''message'', JStr msg)])\<rparr>"

text \<open>
  \<open>json_dumps\<close> stands for the library's \<^verbatim>\<open>json.dumps\<close>, which the message handler
  applies to a tool's result.
\<close>

definition tools_call ::
  "config \<Rightarrow> (json \<Rightarrow> string) \<Rightarrow> handler_env \<Rightarrow> MCPRequest \<Rightarrow> (error + MCPResponse) \<times> event list"
where
  "tools_call cfg json_dumps env request =
     (case req_params request of
        None \<Rightarrow>
          (Inl (Raised AttributeError
                  (quoted ''NoneType'' @ '' object has no attribute '' @ quoted ''get'')), [])
      | Some ps \<Rightarrow>
          (let tool_name = (case map_of ps ''name'' of Some v \<Rightarrow> v | None \<Rightarrow> JNull);
               tool_args = (case map_of ps ''arguments'' of Some v \<Rightarrow> v | None \<Rightarrow> JDict [])
           in case tools_lookup tool_name of
                Inl e \<Rightarrow> (Inl e, [])
              | Inr None \<Rightarrow>
                  (Inr (rpc_error (req_id request) (- 32601)
                          (''Tool not found: '' @ py_str tool_name)), [])
              | Inr (Some info) \<Rightarrow>
                  (case kwargs_of tool_args of
                     Inl e \<Rightarrow> (Inl e, [])
                   | Inr kw \<Rightarrow>
                       (let (r, ev) = fn info cfg env kw
                        in case r of
                             Inl e \<Rightarrow> (Inl e, ev)
                           | Inr res \<Rightarrow>
                               (Inr (rpc_result (req_id request)
                                  (JDict [(''content'',
                                     JList [JDict [(''type'', JStr ''text''),
                                                   (''text'', JStr (json_dumps res))]])])),
                                ev)))))"

definition mcp_message ::
  "config \<Rightarrow> (json \<Rightarrow> string) \<Rightarrow> handler_env \<Rightarrow> MCPRequest \<Rightarrow> (error + MCPResponse) \<times> event list"
where
  "mcp_message cfg json_dumps env request =
     (if req_method request = ''initialize'' then
        (Inr (rpc_result (req_id request)
           (JDict [(''protocolVersion'', JStr ''2024-11-05''),
                   (''serverInfo'', JDict [(''name'', JStr (''ada-local-'' @ NODE_ID cfg)),
                                          (''version'', JStr ''1.0.0'')]),
                   (''capabilities'', JDict [(''tools'', JDict [])])])), [])
      else if req_method request = ''tools/list'' then
        (Inr (rpc_result (req_id request) (JDict [(''tools'', tool_listing)])), [])
      else if req_method request = ''tools/call'' then tools_call cfg json_dumps env request
      else
        (Inr (rpc_error (req_id request) (- 32601) (''Unknown method: '' @ req_method request)), []))"

definition invoke_from_railway ::
  "config \<Rightarrow> job_env \<Rightarrow> HiveJob \<Rightarrow> state \<Rightarrow> (error + json) \<times> state \<times> event list" where
  "invoke_from_railway cfg env job st =
     (let (r, st1, ev) = process_job cfg env job st
      in case r of
           Inl e \<Rightarrow> (Inl e, st1, ev)
         | Inr u \<Rightarrow>
             (Inr (JDict [(''status'', JStr ''accepted''), (''job_id'', JStr (job_id job))]),
              st1, ev))"

section \<open>Sample worlds\<close>

text \<open>
  Concrete configurations, answers of the outside world and requests, at which the
  results below are evaluated. The configuration is the one the source falls back to
  when the environment sets nothing.
\<close>

definition default_config :: config where
  "default_config = \<lparr>NODE_ID = ''wsl-local'', RAILWAY_URL = ''https://rest.msgraph.de'',
     AUTH_URL = ''https://auth2.msgraph.de'', SCENT = ''awaken'', POLL_INTERVAL = 5,
     N8N_URL = ''http://localhost:5678''\<rparr>"

definition connection_refused :: error where
  "connection_refused = Raised PyException ''All connection attempts failed''"

definition plain_response :: "int \<Rightarrow> response" where
  "plain_response code = \<lparr>status_code = code, location = None,
     json_body = Inl (Raised PyException ''Expecting value'')\<rparr>"

definition json_response :: "int \<Rightarrow> json \<Rightarrow> response" where
  "json_response code body = \<lparr>status_code = code, location = None, json_body = Inr body\<rparr>"

definition redirect_response :: "string \<Rightarrow> response" where
  "redirect_response loc = \<lparr>status_code = 302, location = Some loc,
     json_body = Inl (Raised PyException ''Expecting value'')\<rparr>"

definition auth_ok :: auth_env where
  "auth_ok = \<lparr>now_check = 1000,
     authorize_out = Inr (redirect_response ''http://localhost:8000/callback?code=abc&state=wsl-local''),
     token_out = Inr (json_response 200 (JDict [(''access_token'', JStr ''tok'')])),
     now_issue = 2000\<rparr>"

definition auth_refused :: auth_env where
  "auth_refused = \<lparr>now_check = 1000,
     authorize_out = Inr (redirect_response ''http://localhost:8000/callback?code=abc&state=wsl-local''),
     token_out = Inr (json_response 400 (JDict [(''error'', JStr ''invalid_grant'')])),
     now_issue = 2000\<rparr>"

definition auth_down :: auth_env where
  "auth_down = \<lparr>now_check = 1000, authorize_out = Inl connection_refused,
     token_out = Inl connection_refused, now_issue = 2000\<rparr>"

definition active_state :: state where
  "active_state = lifespan_startup initial_state"

definition cached_state :: state where
  "cached_state = initial_state\<lparr>token := JStr ''old'', token_expiry := Some 5000\<rparr>"

definition sample_handlers :: handler_env where
  "sample_handlers = \<lparr>bark_check = Inl connection_refused, bark_stamp = ''20250101_000000'',
     bark_generate = Inl connection_refused, n8n_post = Inl connection_refused,
     shell_run = Inr \<lparr>stdout = ''hi'', stderr = [], returncode = 0\<rparr>,
     file_read = Inl connection_refused, file_write = Inl connection_refused,
     listdir = Inr [''a.txt'']\<rparr>"

definition echo_job :: HiveJob where
  "echo_job = \<lparr>job_id = ''j1'', tool = ''local_exec'',
     args = [(''command'', JStr ''echo hi'')], callback_url = None\<rparr>"

definition bare_job :: HiveJob where
  "bare_job = \<lparr>job_id = ''j2'', tool = ''local_exec'', args = [], callback_url = None\<rparr>"

definition job_env_ok :: job_env where
  "job_env_ok = \<lparr>handler_out = sample_handlers, report_auth = auth_ok,
     report_out = Inr (json_response 200 (JDict []))\<rparr>"

definition job_env_report_down :: job_env where
  "job_env_report_down = \<lparr>handler_out = sample_handlers, report_auth = auth_ok,
     report_out = Inl connection_refused\<rparr>"

definition register_env_created :: register_env where
  "register_env_created = \<lparr>register_auth = auth_ok, register_out = Inr (plain_response 201)\<rparr>"

definition register_env_refused :: register_env where
  "register_env_refused = \<lparr>register_auth = auth_refused,
     register_out = Inr (plain_response 401)\<rparr>"

definition register_env_ok :: register_env where
  "register_env_ok = \<lparr>register_auth = auth_ok, register_out = Inr (plain_response 200)\<rparr>"

definition poll_env_server_error :: poll_env where
  "poll_env_server_error = \<lparr>poll_auth = auth_ok, pending_out = Inr (plain_response 500),
     job_envs = (\<lambda>i. job_env_ok), now_sync = 3000, shutdown = False\<rparr>"

definition poll_env_down :: poll_env where
  "poll_env_down = \<lparr>poll_auth = auth_down, pending_out = Inl connection_refused,
     job_envs = (\<lambda>i. job_env_ok), now_sync = 3000, shutdown = False\<rparr>"

definition call_without_params :: MCPRequest where
  "call_without_params = \<lparr>req_jsonrpc = ''2.0'', req_id = Some 1, req_method = ''tools/call'',
     req_params = None\<rparr>"

definition call_list_name :: MCPRequest where
  "call_list_name = \<lparr>req_jsonrpc = ''2.0'', req_id = Some 5, req_method = ''tools/call'',
     req_params = Some [(''name'', JList [])]\<rparr>"

definition call_nonexistent :: MCPRequest where
  "call_nonexistent = \<lparr>req_jsonrpc = ''2.0'', req_id = Some 2, req_method = ''tools/call'',
     req_params = Some [(''name'', JStr ''nonexistent'')]\<rparr>"

definition ping_request :: MCPRequest where
  "ping_request = \<lparr>req_jsonrpc = ''2.0'', req_id = Some 3, req_method = ''ping'', req_params = None\<rparr>"

definition number_job :: HiveJob where
  "number_job = \<lparr>job_id = ''j3'', tool = ''local_exec'',
     args = [(''command'', JInt 5)], callback_url = None\<rparr>"

definition call_without_arguments :: MCPRequest where
  "call_without_arguments = \<lparr>req_jsonrpc = ''2.0'', req_id = Some 4,
     req_method = ''tools/call'', req_params = Some [(''name'', JStr ''local_exec'')]\<rparr>"

definition bare_call :: ToolCall where
  "bare_call = \<lparr>call_tool = ''local_exec'', call_args = []\<rparr>"

section \<open>Supporting lemmas\<close>

lemma returned_simps [simp]: "returned (Inl e) = False" "returned (Inr v) = True"
  by (simp_all add: returned_def)

subsection \<open>Substrings and the registry\<close>

lemma str_contains_sublist: "str_contains sub s = sublist sub s"
  by (induction s) (cases sub; simp add: sublist_code)+

lemma any_in_hit: "d \<in> set ds \<Longrightarrow> str_contains d c \<Longrightarrow> any_in ds (JStr c) = Inr True"
  by (induction ds) auto

lemma tool_names: "map fst TOOLS = [''bark_tts'', ''n8n_trigger'', ''local_exec'', ''filesystem'']"
  by (simp add: TOOLS_def)


lemma tools_lookup_unknown:
  "(\<forall>xs. v \<noteq> JList xs) \<Longrightarrow> (\<forall>kvs. v \<noteq> JDict kvs) \<Longrightarrow> v \<notin> JStr ` set (map fst TOOLS) \<Longrightarrow>
     tools_lookup v = Inr None"
  by (cases v) (auto simp: map_of_eq_None_iff image_iff)

text \<open>
  The answer to a \<^verbatim>\<open>tools/call\<close> for any name the registry can be asked about and
  does not hold: a string that names no tool, or no string at all (the name absent,
  \<^verbatim>\<open>None\<close>, a boolean, a number). A list or a dict as name cannot be hashed, and the
  membership test raises.
\<close>

lemma tool_not_found:
  assumes "req_method request = ''tools/call''" and "req_params request = Some ps"
    and "tool_name = (case map_of ps ''name'' of Some v \<Rightarrow> v | None \<Rightarrow> JNull)"
    and "\<forall>xs. tool_name \<noteq> JList xs" and "\<forall>kvs. tool_name \<noteq> JDict kvs"
    and "tool_name \<notin> JStr ` set (map fst TOOLS)"
  shows "mcp_message cfg json_dumps env request =
      (Inr (rpc_error (req_id request) (- 32601) (''Tool not found: '' @ py_str tool_name)), [])"
proof -
  have "tools_lookup tool_name = Inr None"
    using assms(4-6) by (intro tools_lookup_unknown)
  with assms(1-3) show ?thesis
    by (simp add: mcp_message_def tools_call_def)
qed

lemma unknown_method:
  "req_method request \<notin> {''initialize'', ''tools/list'', ''tools/call''} \<Longrightarrow>
     mcp_message cfg json_dumps env request =
       (Inr (rpc_error (req_id request) (- 32601) (''Unknown method: '' @ req_method request)),
        [])"
  by (simp add: mcp_message_def)

lemma unhashable_name_raises:
  "req_method request = ''tools/call'' \<Longrightarrow> req_params request = Some ps \<Longrightarrow>
   map_of ps ''name'' = Some (JList xs) \<Longrightarrow>
     mcp_message cfg json_dumps env request =
       (Inl (Raised TypeError (''unhashable type: '' @ quoted ''list'')), [])"
  by (simp add: mcp_message_def tools_call_def)

lemma missing_command:
  "check_call ''tool_local_exec'' sig_local_exec [] =
     Some (Raised TypeError
       (''tool_local_exec() missing 1 required positional argument: '' @ quoted ''command''))"
  by code_simp

lemma number_command:
  "call_local_exec cfg env [(''command'', JInt 5)] =
     (Inl (Raised TypeError (''argument of type '' @ quoted ''int'' @ '' is not iterable'')), [])"
  by (simp add: call_local_exec_def check_call_def sig_local_exec_def arg_def
      tool_local_exec_def dangerous_def)

subsection \<open>What the handlers' own \<^verbatim>\<open>try\<close> blocks catch\<close>

text \<open>
  Once the arguments are bound, three handlers cannot raise, and \<^verbatim>\<open>tool_local_exec\<close>
  cannot when its command is a string: every failure of the outside world comes back
  as a result \<^verbatim>\<open>{"error": ...}\<close>.
\<close>

lemma tool_bark_tts_returns: "returned (fst (tool_bark_tts env text voice))"
  by (simp add: tool_bark_tts_def Let_def split: sum.splits)

lemma tool_n8n_trigger_returns: "returned (fst (tool_n8n_trigger cfg env workflow payload))"
  by (simp add: tool_n8n_trigger_def Let_def split: sum.splits)

lemma tool_filesystem_returns: "returned (fst (tool_filesystem env action path content))"
  by (simp add: tool_filesystem_def split: sum.splits)

lemma any_in_string_returns: "returned (any_in ds (JStr c))"
  by (induction ds) auto

lemma tool_local_exec_returns: "returned (fst (tool_local_exec env (JStr c) safe_mode))"
  using any_in_string_returns [of dangerous c]
  by (auto simp: tool_local_exec_def split: sum.splits)

lemma run_tool_unknown:
  "tool job \<notin> set (map fst TOOLS) \<Longrightarrow>
     run_tool cfg env job = (Inr (JDict [(''error'', JStr ''Unknown tool'')]), [])"
proof -
  assume "tool job \<notin> set (map fst TOOLS)"
  then have "map_of TOOLS (tool job) = None" by (simp add: map_of_eq_None_iff)
  then show ?thesis by (simp add: run_tool_def)
qed

subsection \<open>\<^verbatim>\<open>get_token\<close>\<close>

lemma exchange_code_cases:
  "exchange_code cfg env st code = (r, st', ev) \<Longrightarrow>
     ev = [authorize_request cfg, token_request cfg code] \<and>
     (case r of Inl e \<Rightarrow> st' = st
      | Inr tok \<Rightarrow> st' = st\<lparr>token := tok, token_expiry := Some (now_issue env + one_hour)\<rparr>)"
  by (auto simp: exchange_code_def Let_def split: sum.splits)

lemma get_token_valid:
  "token_valid st (now_check env) \<Longrightarrow> get_token cfg env st = (Inr (token st), st, [])"
  by (simp add: get_token_def)

lemma get_token_failure:
  "get_token cfg env st = (Inl e, st', ev) \<Longrightarrow> st' = st \<and> ev \<noteq> [] \<and> hd ev = authorize_request cfg"
  by (auto simp: get_token_def dest!: exchange_code_cases split: if_splits sum.splits option.splits)

lemma get_token_acquired:
  "\<not> token_valid st (now_check env) \<Longrightarrow> get_token cfg env st = (Inr tok, st', ev) \<Longrightarrow>
     (\<exists>code. code \<noteq> [] \<and> ev = [authorize_request cfg, token_request cfg code]) \<and>
     st' = st\<lparr>token := tok, token_expiry := Some (now_issue env + one_hour)\<rparr>"
  by (auto simp: get_token_def dest!: exchange_code_cases split: if_splits sum.splits option.splits)

lemma py_get_Inr:
  "py_get v k d = Inr x \<Longrightarrow>
     \<exists>kvs. v = JDict kvs \<and> x = (case map_of kvs k of Some w \<Rightarrow> w | None \<Rightarrow> d)"
  by (cases v) auto

text \<open>
  What a token returned after an acquisition is: the \<^verbatim>\<open>access_token\<close> entry of the
  JSON object the token endpoint answered with, and \<^verbatim>\<open>None\<close> when the object has
  no such entry.
\<close>

lemma get_token_acquired_token:
  "\<not> token_valid st (now_check env) \<Longrightarrow> get_token cfg env st = (Inr tok, st', ev) \<Longrightarrow>
   \<exists>resp code resp2 kvs.
     authorize_out env = Inr resp
     \<and> extract_code (case location resp of None \<Rightarrow> [] | Some loc \<Rightarrow> loc) = Inr (Some code)
     \<and> code \<noteq> []
     \<and> token_out env = Inr resp2 \<and> json_body resp2 = Inr (JDict kvs)
     \<and> tok = (case map_of kvs ''access_token'' of Some v \<Rightarrow> v | None \<Rightarrow> JNull)
     \<and> ev = [authorize_request cfg, token_request cfg code]
     \<and> st' = st\<lparr>token := tok, token_expiry := Some (now_issue env + one_hour)\<rparr>"
  by (auto simp: get_token_def exchange_code_def Let_def
      split: if_splits sum.splits option.splits dest!: py_get_Inr)

lemma get_token_frame:
  "get_token cfg env st = (r, st', ev) \<Longrightarrow>
     registered st' = registered st \<and> jobs_processed st' = jobs_processed st \<and>
     last_sync st' = last_sync st \<and> bridge_active st' = bridge_active st"
  by (auto simp: get_token_def dest!: exchange_code_cases split: if_splits sum.splits option.splits)


subsection \<open>The authenticated requests follow the credential\<close>

lemma register_try_events:
  "snd (snd (register_try cfg env st)) =
     snd (snd (get_token cfg (register_auth env) st)) @
     (case fst (get_token cfg (register_auth env) st) of
        Inl e \<Rightarrow> [] | Inr tok \<Rightarrow> [register_request cfg tok])"
  by (auto simp: register_try_def split: prod.splits sum.splits)

lemma report_try_events:
  "snd (snd (report_try cfg env job res st)) =
     snd (snd (get_token cfg (report_auth env) st)) @
     (case fst (get_token cfg (report_auth env) st) of
        Inl e \<Rightarrow> [] | Inr tok \<Rightarrow> [result_request cfg tok (job_id job) res])"
  by (auto simp: report_try_def split: prod.splits sum.splits)

lemma poll_try_events:
  "\<exists>rest. snd (snd (poll_try cfg env st)) =
     snd (snd (get_token cfg (poll_auth env) st)) @
     (case fst (get_token cfg (poll_auth env) st) of
        Inl e \<Rightarrow> [] | Inr tok \<Rightarrow> pending_request cfg tok # rest)"
  by (auto simp: poll_try_def split: prod.splits sum.splits)

subsection \<open>Fields a step leaves alone\<close>

lemma report_try_frame:
  "report_try cfg env job res st = (r, st', ev) \<Longrightarrow>
     registered st' = registered st \<and> last_sync st' = last_sync st \<and>
     bridge_active st' = bridge_active st"
  by (auto simp: report_try_def split: prod.splits sum.splits dest: get_token_frame)

lemma process_job_frame:
  "process_job cfg env job st = (r, st', ev) \<Longrightarrow>
     registered st' = registered st \<and> last_sync st' = last_sync st \<and>
     bridge_active st' = bridge_active st"
  by (auto simp: process_job_def split: prod.splits sum.splits dest: report_try_frame)

lemma process_job_returns:
  "run_tool cfg (handler_out env) job = (Inr res, hev) \<Longrightarrow>
     fst (process_job cfg env job st) = Inr ()"
  by (auto simp: process_job_def split: prod.splits sum.splits)

lemma run_jobs_frame:
  "run_jobs cfg envs i js st = (r, st', ev) \<Longrightarrow>
     registered st' = registered st \<and> last_sync st' = last_sync st \<and>
     bridge_active st' = bridge_active st"
proof (induction js arbitrary: i st r st' ev)
  case Nil
  then show ?case by simp
next
  case (Cons j js)
  show ?case
  proof (cases "parse_HiveJob j")
    case (Inl e)
    with Cons.prems show ?thesis by simp
  next
    case (Inr job)
    obtain r1 st1 ev1 where p: "process_job cfg (envs i) job st = (r1, st1, ev1)"
      by (cases "process_job cfg (envs i) job st") auto
    note f1 = process_job_frame [OF p]
    show ?thesis
    proof (cases r1)
      case (Inl e)
      with Cons.prems Inr p f1 show ?thesis by simp
    next
      case (Inr u)
      obtain r2 st2 ev2 where q: "run_jobs cfg envs (Suc i) js st1 = (r2, st2, ev2)"
        by (cases "run_jobs cfg envs (Suc i) js st1") auto
      from Cons.prems \<open>parse_HiveJob j = Inr job\<close> p Inr q have "st' = st2" by simp
      with Cons.IH [OF q] f1 show ?thesis by simp
    qed
  qed
qed

lemma handle_pending_frame:
  "handle_pending cfg env resp st = (r, st', ev) \<Longrightarrow>
     registered st' = registered st \<and> last_sync st' = last_sync st \<and>
     bridge_active st' = bridge_active st"
  by (auto simp: handle_pending_def split: if_splits sum.splits dest: run_jobs_frame)


lemma poll_try_last_sync:
  "poll_try cfg env st = (r, st', ev) \<Longrightarrow>
     last_sync st' = (if returned r then Some (now_sync env) else last_sync st)"
  by (auto simp: poll_try_def split: prod.splits sum.splits
      dest!: get_token_frame handle_pending_frame)

lemma poll_try_returned:
  "get_token cfg (poll_auth env) st = (Inr tok, st1, ev) \<Longrightarrow> pending_out env = Inr resp \<Longrightarrow>
     returned (fst (poll_try cfg env st)) = returned (fst (handle_pending cfg env resp st1))"
  by (auto simp: poll_try_def split: prod.splits sum.splits)

lemma poll_iteration_eq:
  "poll_iteration cfg env st =
     (fst (snd (poll_try cfg env st)), snd (snd (poll_try cfg env st)) @ [Sleep (POLL_INTERVAL cfg)])"
  by (auto simp: poll_iteration_def split: prod.splits sum.splits)


subsection \<open>Only the loop sleeps\<close>











subsection \<open>The sample worlds, evaluated\<close>

lemma sample_get_token:
  "get_token default_config auth_ok initial_state =
     (Inr (JStr ''tok''),
      initial_state\<lparr>token := JStr ''tok'', token_expiry := Some (2000 + one_hour)\<rparr>,
      [authorize_request default_config, token_request default_config ''abc''])"
  by (simp add: get_token_def token_valid_def initial_state_def auth_ok_def redirect_response_def
      json_response_def extract_code_def split_str_def exchange_code_def)

lemma sample_get_token_active:
  "get_token default_config auth_ok active_state =
     (Inr (JStr ''tok''),
      active_state\<lparr>token := JStr ''tok'', token_expiry := Some (2000 + one_hour)\<rparr>,
      [authorize_request default_config, token_request default_config ''abc''])"
  by (simp add: get_token_def token_valid_def initial_state_def active_state_def lifespan_startup_def auth_ok_def
      redirect_response_def json_response_def extract_code_def split_str_def exchange_code_def)

lemma sample_get_token_down:
  "get_token default_config auth_down active_state =
     (Inl connection_refused, active_state, [authorize_request default_config])"
  by (simp add: get_token_def token_valid_def initial_state_def active_state_def lifespan_startup_def auth_down_def)

lemma sample_get_token_cached:
  "get_token default_config auth_ok cached_state = (Inr (JStr ''old''), cached_state, [])"
  by (simp add: get_token_def token_valid_def initial_state_def cached_state_def auth_ok_def)

lemma run_tool_echo:
  "run_tool cfg sample_handlers echo_job =
     (Inr (JDict [(''stdout'', JStr ''hi''), (''stderr'', JStr []), (''exit_code'', JInt 0)]),
      [Subprocess (JStr ''echo hi'')])"
  by (simp add: run_tool_def echo_job_def TOOLS_def call_local_exec_def check_call_def
      sig_local_exec_def arg_def tool_local_exec_def dangerous_def sample_handlers_def)


lemma sample_poll_try_server_error:
  "poll_try default_config poll_env_server_error active_state =
     (Inr (),
      active_state\<lparr>token := JStr ''tok'', token_expiry := Some (2000 + one_hour),
                    last_sync := Some 3000\<rparr>,
      [authorize_request default_config, token_request default_config ''abc'',
       pending_request default_config (JStr ''tok'')])"
  by (simp add: poll_try_def poll_env_server_error_def sample_get_token_active
      handle_pending_def plain_response_def)

section \<open>The claims\<close>

subsection \<open>Dispatch of a job\<close>

text \<open>
  Claim C1 says that \<^verbatim>\<open>process_job\<close> always produces a result payload and never
  raises to its caller. The code does not do so: the handler is called outside any
  \<^verbatim>\<open>try\<close>, so a job whose arguments do not bind to the handler's parameters makes
  the call itself raise \<^verbatim>\<open>TypeError\<close>, and the exception leaves \<^verbatim>\<open>process_job\<close>.
  So does a failure inside a handler that its own \<^verbatim>\<open>try\<close> does not enclose: the
  safe-mode test of \<^verbatim>\<open>tool_local_exec\<close> on a command that is not iterable. At a job
  for \<^verbatim>\<open>local_exec\<close> without arguments, and at one whose command is the number 5,
  in every world and every state: the function raises, the state is unchanged and
  nothing is reported.
\<close>

theorem process_job_raises_when_handler_call_raises:
  "process_job cfg env bare_job st =
     (Inl (Raised TypeError
        (''tool_local_exec() missing 1 required positional argument: '' @ quoted ''command'')),
      st, [])
   \<and> process_job cfg env number_job st =
     (Inl (Raised TypeError (''argument of type '' @ quoted ''int'' @ '' is not iterable'')),
      st, [])"
  by (simp add: process_job_def run_tool_def bare_job_def number_job_def TOOLS_def
      number_command) (simp add: call_local_exec_def missing_command)

subsection \<open>The direct push endpoint\<close>

text \<open>
  Claim C2, as the code has it. \<^verbatim>\<open>invoke_from_railway\<close> awaits \<^verbatim>\<open>process_job\<close>:
  whenever the handler call returns a result, the endpoint answers
  \<^verbatim>\<open>{"status": "accepted", "job_id": job_id}\<close>, and it answers after the handler has
  run and the report has been attempted. The events before the answer are the
  handler's, then those of the credential acquisition, then the result POST if a
  credential was obtained; the state is the one the report attempt leaves.
\<close>

theorem invoke_replies_after_process_job:
  assumes "run_tool cfg (handler_out env) job = (Inr res, hev)"
  shows "invoke_from_railway cfg env job st =
     (Inr (JDict [(''status'', JStr ''accepted''), (''job_id'', JStr (job_id job))]),
      fst (snd (report_try cfg env job res st)),
      hev @ snd (snd (report_try cfg env job res st)))
    \<and> snd (snd (report_try cfg env job res st)) =
       snd (snd (get_token cfg (report_auth env) st)) @
       (case fst (get_token cfg (report_auth env) st) of
          Inl e \<Rightarrow> [] | Inr tok \<Rightarrow> [result_request cfg tok (job_id job) res])"
proof
  show "invoke_from_railway cfg env job st =
     (Inr (JDict [(''status'', JStr ''accepted''), (''job_id'', JStr (job_id job))]),
      fst (snd (report_try cfg env job res st)),
      hev @ snd (snd (report_try cfg env job res st)))"
    using assms
    by (auto simp: invoke_from_railway_def process_job_def split: prod.splits sum.splits)
  show "snd (snd (report_try cfg env job res st)) =
       snd (snd (get_token cfg (report_auth env) st)) @
       (case fst (get_token cfg (report_auth env) st) of
          Inl e \<Rightarrow> [] | Inr tok \<Rightarrow> [result_request cfg tok (job_id job) res])"
    by (rule report_try_events)
qed

theorem invoke_replies_after_process_job_witness:
  "run_tool default_config (handler_out job_env_ok) echo_job =
     (Inr (JDict [(''stdout'', JStr ''hi''), (''stderr'', JStr []), (''exit_code'', JInt 0)]),
      [Subprocess (JStr ''echo hi'')])
   \<and> fst (invoke_from_railway default_config job_env_ok echo_job initial_state) =
       Inr (JDict [(''status'', JStr ''accepted''), (''job_id'', JStr ''j1'')])
   \<and> snd (snd (invoke_from_railway default_config job_env_ok echo_job initial_state)) =
       [Subprocess (JStr ''echo hi''),
        authorize_request default_config,
        token_request default_config ''abc'',
        result_request default_config (JStr ''tok'') ''j1''
          (JDict [(''stdout'', JStr ''hi''), (''stderr'', JStr []), (''exit_code'', JInt 0)])]"
proof -
  have h: "run_tool default_config (handler_out job_env_ok) echo_job =
     (Inr (JDict [(''stdout'', JStr ''hi''), (''stderr'', JStr []), (''exit_code'', JInt 0)]),
      [Subprocess (JStr ''echo hi'')])"
    by (simp add: job_env_ok_def run_tool_echo)
  have a: "report_auth job_env_ok = auth_ok" by (simp add: job_env_ok_def)
  have j: "job_id echo_job = ''j1''" by (simp add: echo_job_def)
  show ?thesis
    using h invoke_replies_after_process_job [OF h, of initial_state]
    by (simp add: a j sample_get_token)
qed

text \<open>
  Against the claim as stated (the acknowledgment is returned before the handler's
  execution and the report complete): posting a job that echoes a word, the shell
  command has run, the credential has been acquired and the result has been posted,
  and the processed-jobs counter has been incremented, when the acknowledgment is
  returned.
\<close>

theorem invoke_replies_immediately_counterexample:
  "invoke_from_railway default_config job_env_ok echo_job initial_state =
     (Inr (JDict [(''status'', JStr ''accepted''), (''job_id'', JStr ''j1'')]),
      initial_state\<lparr>token := JStr ''tok'', token_expiry := Some (2000 + one_hour),
                     jobs_processed := 1\<rparr>,
      [Subprocess (JStr ''echo hi''),
       authorize_request default_config,
       token_request default_config ''abc'',
       result_request default_config (JStr ''tok'') ''j1''
         (JDict [(''stdout'', JStr ''hi''), (''stderr'', JStr []), (''exit_code'', JInt 0)])])"
  by (simp add: invoke_from_railway_def process_job_def report_try_def job_env_ok_def
      run_tool_echo sample_get_token json_response_def)
     (simp add: echo_job_def initial_state_def)

subsection \<open>The processed-jobs counter\<close>

text \<open>
  Claim C3, as the code has it. The increment stands inside the \<^verbatim>\<open>try\<close>, after the
  awaited POST. For every job whose handler call returns, \<open>jobs_processed\<close> is
  incremented exactly once when a credential is obtained and the result POST returns a
  response (whatever its status code), and is left as it was when the credential
  acquisition or the POST raises.
\<close>

theorem jobs_processed_counts_answered_reports:
  assumes "run_tool cfg (handler_out env) job = (Inr res, hev)"
  shows "jobs_processed (fst (snd (process_job cfg env job st))) =
     (if returned (fst (get_token cfg (report_auth env) st)) \<and> returned (report_out env)
      then jobs_processed st + 1 else jobs_processed st)"
  using assms
  by (auto simp: process_job_def report_try_def split: prod.splits sum.splits
      dest: get_token_frame)

theorem jobs_processed_counts_answered_reports_witness:
  "run_tool default_config (handler_out job_env_ok) echo_job =
     (Inr (JDict [(''stdout'', JStr ''hi''), (''stderr'', JStr []), (''exit_code'', JInt 0)]),
      [Subprocess (JStr ''echo hi'')])
   \<and> returned (fst (get_token default_config (report_auth job_env_ok) initial_state))
   \<and> returned (report_out job_env_ok)
   \<and> jobs_processed (fst (snd (process_job default_config job_env_ok echo_job initial_state)))
       = 1"
proof -
  have h: "run_tool default_config (handler_out job_env_ok) echo_job =
     (Inr (JDict [(''stdout'', JStr ''hi''), (''stderr'', JStr []), (''exit_code'', JInt 0)]),
      [Subprocess (JStr ''echo hi'')])"
    by (simp add: job_env_ok_def run_tool_echo)
  have a: "report_auth job_env_ok = auth_ok"
    and r: "returned (report_out job_env_ok)"
    by (simp_all add: job_env_ok_def)
  have z: "jobs_processed initial_state = 0" by (simp add: initial_state_def)
  show ?thesis
    using h r jobs_processed_counts_answered_reports [OF h, of initial_state]
    by (simp add: a z sample_get_token)
qed

text \<open>
  Against the claim as stated (the counter is incremented whether the report succeeds
  or fails): the handler runs, the credential is acquired, the result POST is sent and
  fails in transport; \<^verbatim>\<open>process_job\<close> returns and the counter is what it was.
\<close>

theorem jobs_processed_counterexample:
  "process_job default_config job_env_report_down echo_job initial_state =
     (Inr (),
      initial_state\<lparr>token := JStr ''tok'', token_expiry := Some (2000 + one_hour)\<rparr>,
      [Subprocess (JStr ''echo hi''),
       authorize_request default_config,
       token_request default_config ''abc'',
       result_request default_config (JStr ''tok'') ''j1''
         (JDict [(''stdout'', JStr ''hi''), (''stderr'', JStr []), (''exit_code'', JInt 0)])])
   \<and> jobs_processed (fst (snd (process_job default_config job_env_report_down echo_job
         initial_state))) = jobs_processed initial_state"
  by (simp add: process_job_def report_try_def job_env_report_down_def
      run_tool_echo sample_get_token)
     (simp add: echo_job_def initial_state_def)

subsection \<open>Synchronous requests\<close>

text \<open>
  Claim C4 says that an error arising while a synchronous request is handled comes
  back as a well-formed error response. The code does not do so for the inputs the
  claim names. A \<^verbatim>\<open>tools/call\<close> message without \<^verbatim>\<open>params\<close> makes
  \<^verbatim>\<open>request.params.get\<close> raise \<^verbatim>\<open>AttributeError\<close>; a \<^verbatim>\<open>tools/call\<close> message
  and a direct invocation whose arguments do not bind to the handler's parameters make
  the handler call raise \<^verbatim>\<open>TypeError\<close>. Neither is an \<^verbatim>\<open>HTTPException\<close>, and
  nothing catches them.
\<close>

theorem synchronous_requests_surface_unhandled_faults:
  "mcp_message cfg json_dumps env call_without_params =
     (Inl (Raised AttributeError
        (quoted ''NoneType'' @ '' object has no attribute '' @ quoted ''get'')), [])
   \<and> mcp_message cfg json_dumps env call_without_arguments =
     (Inl (Raised TypeError
        (''tool_local_exec() missing 1 required positional argument: '' @ quoted ''command'')),
      [])
   \<and> invoke_tool cfg env bare_call =
     (Inl (Raised TypeError
        (''tool_local_exec() missing 1 required positional argument: '' @ quoted ''command'')),
      [])
   \<and> unhandled (Raised AttributeError msg) \<and> unhandled (Raised TypeError msg)"
  by (simp add: mcp_message_def tools_call_def call_without_params_def
      call_without_arguments_def invoke_tool_def bare_call_def TOOLS_def)
     (simp add: call_local_exec_def missing_command)

subsection \<open>Registration\<close>

text \<open>
  Claim C5, as the code has it. \<^verbatim>\<open>register_node\<close> never raises. It sets
  \<open>registered\<close> exactly when a credential is obtained and the registration POST returns
  status code 200; on every error (no credential, transport failure, any other status
  code, other 2xx codes included) it leaves \<open>registered\<close> as it was, which is false from
  the initial state. It touches no other counter or flag of the bridge state.
\<close>

theorem register_node_never_raises_and_needs_200:
  "fst (register_node cfg env st) = Inr ()
   \<and> registered (fst (snd (register_node cfg env st))) =
       (registered st \<or>
        (returned (fst (get_token cfg (register_auth env) st)) \<and>
         (case register_out env of Inl e \<Rightarrow> False | Inr resp \<Rightarrow> status_code resp = 200)))
   \<and> jobs_processed (fst (snd (register_node cfg env st))) = jobs_processed st
   \<and> last_sync (fst (snd (register_node cfg env st))) = last_sync st
   \<and> bridge_active (fst (snd (register_node cfg env st))) = bridge_active st"
  by (auto simp: register_node_def register_try_def split: prod.splits sum.splits
      dest: get_token_frame)

theorem register_node_never_raises_and_needs_200_witness:
  "register_node default_config register_env_ok initial_state =
     (Inr (),
      initial_state\<lparr>token := JStr ''tok'', token_expiry := Some (2000 + one_hour),
                     registered := True\<rparr>,
      [authorize_request default_config, token_request default_config ''abc'',
       register_request default_config (JStr ''tok'')])"
proof -
  have ev: "snd (snd (register_node default_config register_env_ok initial_state)) =
      [authorize_request default_config, token_request default_config ''abc'',
       register_request default_config (JStr ''tok'')]"
    and st: "fst (snd (register_node default_config register_env_ok initial_state)) =
      initial_state\<lparr>token := JStr ''tok'', token_expiry := Some (2000 + one_hour),
                     registered := True\<rparr>"
    by (simp_all add: register_node_def register_try_def register_env_ok_def sample_get_token
        plain_response_def)
  show ?thesis
    using ev st register_node_never_raises_and_needs_200
      [of default_config register_env_ok initial_state]
    by (simp add: prod_eq_iff)
qed

text \<open>
  Against the claim as stated (\<open>registered\<close> becomes true on any 2xx acknowledgment):
  the registration POST is answered with status 201, and the node stays unregistered.
\<close>

theorem register_on_any_2xx_counterexample:
  "register_out register_env_created = Inr (plain_response 201)
   \<and> status_code (plain_response 201) = 201
   \<and> fst (register_node default_config register_env_created initial_state) = Inr ()
   \<and> registered (fst (snd (register_node default_config register_env_created initial_state)))
       = False"
  by (simp add: register_node_def register_try_def register_env_created_def sample_get_token
      plain_response_def)
     (simp add: initial_state_def)

subsection \<open>The last-sync timestamp\<close>

text \<open>
  Claim C6, as the code has it. The assignment to \<open>last_sync\<close> stands after the
  \<^verbatim>\<open>if resp.status_code == 200\<close> statement, not under it. In every iteration
  \<open>last_sync\<close> is set to the current time exactly when the body of the \<^verbatim>\<open>try\<close>
  completes without an exception, and is left as it was otherwise. The body completes
  whenever a credential is obtained and the request for pending jobs returns a response
  whose status is not 200; for a response with status 200 whose body decodes to
  something iterable, it completes exactly when every job of the batch is processed
  without an exception (so also for an empty batch); it does not complete when the
  credential acquisition or the request itself raises.
\<close>

theorem last_sync_follows_completed_poll_body:
  "last_sync (fst (poll_iteration cfg env st)) =
     (if returned (fst (poll_try cfg env st)) then Some (now_sync env) else last_sync st)
   \<and> (get_token cfg (poll_auth env) st = (Inr tok, st1, ev) \<and> pending_out env = Inr resp
        \<and> status_code resp \<noteq> 200 \<longrightarrow> returned (fst (poll_try cfg env st)))
   \<and> (get_token cfg (poll_auth env) st = (Inr tok, st1, ev) \<and> pending_out env = Inr resp
        \<and> status_code resp = 200 \<and> json_body resp = Inr jobs \<and> py_iter jobs = Inr items \<longrightarrow>
        returned (fst (poll_try cfg env st)) =
          returned (fst (run_jobs cfg (job_envs env) 0 items st1)))
   \<and> (fst (get_token cfg (poll_auth env) st) = Inl e \<longrightarrow> \<not> returned (fst (poll_try cfg env st)))
   \<and> (pending_out env = Inl e \<longrightarrow> \<not> returned (fst (poll_try cfg env st)))"
proof (intro conjI impI)
  show "last_sync (fst (poll_iteration cfg env st)) =
     (if returned (fst (poll_try cfg env st)) then Some (now_sync env) else last_sync st)"
    using poll_try_last_sync [of cfg env st]
    by (cases "poll_try cfg env st") (simp add: poll_iteration_eq)
next
  assume "get_token cfg (poll_auth env) st = (Inr tok, st1, ev) \<and> pending_out env = Inr resp
        \<and> status_code resp \<noteq> 200"
  then show "returned (fst (poll_try cfg env st))"
    by (simp add: poll_try_returned handle_pending_def)
next
  assume "get_token cfg (poll_auth env) st = (Inr tok, st1, ev) \<and> pending_out env = Inr resp
        \<and> status_code resp = 200 \<and> json_body resp = Inr jobs \<and> py_iter jobs = Inr items"
  then show "returned (fst (poll_try cfg env st)) =
          returned (fst (run_jobs cfg (job_envs env) 0 items st1))"
    by (simp add: poll_try_returned handle_pending_def)
next
  assume "fst (get_token cfg (poll_auth env) st) = Inl e"
  then show "\<not> returned (fst (poll_try cfg env st))"
    by (auto simp: poll_try_def split: prod.splits sum.splits)
next
  assume "pending_out env = Inl e"
  then show "\<not> returned (fst (poll_try cfg env st))"
    by (auto simp: poll_try_def split: prod.splits sum.splits)
qed

theorem last_sync_follows_completed_poll_body_witness:
  "(get_token default_config (poll_auth poll_env_server_error) active_state =
      (Inr (JStr ''tok''),
       active_state\<lparr>token := JStr ''tok'', token_expiry := Some (2000 + one_hour)\<rparr>,
       [authorize_request default_config, token_request default_config ''abc''])
    \<and> pending_out poll_env_server_error = Inr (plain_response 500)
    \<and> status_code (plain_response 500) \<noteq> 200
    \<and> returned (fst (poll_try default_config poll_env_server_error active_state))
    \<and> last_sync (fst (poll_iteration default_config poll_env_server_error active_state))
        = Some 3000)
   \<and> (fst (get_token default_config (poll_auth poll_env_down) active_state)
        = Inl connection_refused
    \<and> pending_out poll_env_down = Inl connection_refused
    \<and> last_sync (fst (poll_iteration default_config poll_env_down active_state)) = None)"
proof -
  have g: "get_token default_config (poll_auth poll_env_server_error) active_state =
      (Inr (JStr ''tok''),
       active_state\<lparr>token := JStr ''tok'', token_expiry := Some (2000 + one_hour)\<rparr>,
       [authorize_request default_config, token_request default_config ''abc''])"
    by (simp add: poll_env_server_error_def sample_get_token_active)
  have p: "pending_out poll_env_server_error = Inr (plain_response 500)"
    and n: "now_sync poll_env_server_error = 3000"
    by (simp_all add: poll_env_server_error_def)
  have c: "status_code (plain_response 500) \<noteq> 200" by (simp add: plain_response_def)
  have d: "fst (get_token default_config (poll_auth poll_env_down) active_state)
        = Inl connection_refused"
    by (simp add: poll_env_down_def sample_get_token_down)
  have q: "pending_out poll_env_down = Inl connection_refused"
    by (simp add: poll_env_down_def)
  have l: "last_sync active_state = None" by (simp add: active_state_def lifespan_startup_def initial_state_def)
  show ?thesis
    using g p c d q
      last_sync_follows_completed_poll_body
        [of default_config poll_env_server_error active_state "JStr ''tok''"
            "active_state\<lparr>token := JStr ''tok'', token_expiry := Some (2000 + one_hour)\<rparr>"
            "[authorize_request default_config, token_request default_config ''abc'']"
            "plain_response 500"]
      last_sync_follows_completed_poll_body
        [of default_config poll_env_down active_state _ _ _ _ _ _ connection_refused]
    by (simp add: n l)
qed

text \<open>
  Against the claim as stated (\<open>last_sync\<close> is updated on a successful poll and only
  then): the request for pending jobs is answered with status 500, and \<open>last_sync\<close>,
  unset before, is set by the iteration.
\<close>

theorem last_sync_only_on_success_counterexample:
  "pending_out poll_env_server_error = Inr (plain_response 500)
   \<and> status_code (plain_response 500) = 500
   \<and> last_sync active_state = None
   \<and> last_sync (fst (poll_iteration default_config poll_env_server_error active_state))
       = Some 3000"
  by (simp add: poll_iteration_eq sample_poll_try_server_error)
     (simp add: poll_env_server_error_def plain_response_def active_state_def lifespan_startup_def initial_state_def)

subsection \<open>The cached credential\<close>

text \<open>
  Claim C7 says that, when no valid credential is cached, a new credential is acquired
  before the authenticated call proceeds. The code does not ensure it: the answer of
  the token endpoint is not checked. When the endpoint answers with a JSON object that
  has no \<^verbatim>\<open>access_token\<close> (an error answer such as \<^verbatim>\<open>invalid_grant\<close>),
  \<^verbatim>\<open>get_token\<close> raises nothing: it stores \<^verbatim>\<open>None\<close> as the token, with an expiry one
  hour ahead, and returns \<^verbatim>\<open>None\<close>, although it is declared to return a string and
  raises when the authorization step yields no code. The caller goes on and sends its
  request with the header \<^verbatim>\<open>Bearer None\<close>. From the initial state, with the token
  endpoint refusing the code:
\<close>

theorem get_token_returns_absent_token:
  "get_token default_config auth_refused initial_state =
     (Inr JNull,
      initial_state\<lparr>token := JNull, token_expiry := Some (2000 + one_hour)\<rparr>,
      [authorize_request default_config, token_request default_config ''abc''])
   \<and> register_try default_config register_env_refused initial_state =
     (Inr (),
      initial_state\<lparr>token := JNull, token_expiry := Some (2000 + one_hour)\<rparr>,
      [authorize_request default_config, token_request default_config ''abc'',
       HttpPost ''https://rest.msgraph.de/nodes/register'' (Some ''Bearer None'')
         (JDict [(''node_id'', JStr ''wsl-local''),
                 (''capabilities'', JList (map JStr CAPABILITIES)),
                 (''callback_url'', JStr ''http://localhost:8000/invoke'')])])"
proof -
  have g: "get_token default_config auth_refused initial_state =
     (Inr JNull,
      initial_state\<lparr>token := JNull, token_expiry := Some (2000 + one_hour)\<rparr>,
      [authorize_request default_config, token_request default_config ''abc''])"
    by (simp add: get_token_def token_valid_def initial_state_def auth_refused_def
        redirect_response_def json_response_def extract_code_def split_str_def exchange_code_def)
  have r: "register_request default_config JNull =
       HttpPost ''https://rest.msgraph.de/nodes/register'' (Some ''Bearer None'')
         (JDict [(''node_id'', JStr ''wsl-local''),
                 (''capabilities'', JList (map JStr CAPABILITIES)),
                 (''callback_url'', JStr ''http://localhost:8000/invoke'')])"
    by (simp add: register_request_def bearer_def default_config_def)
  have t: "register_try default_config register_env_refused initial_state =
     (Inr (),
      initial_state\<lparr>token := JNull, token_expiry := Some (2000 + one_hour)\<rparr>,
      [authorize_request default_config, token_request default_config ''abc'',
       register_request default_config JNull])"
    by (simp add: g register_try_def register_env_refused_def plain_response_def)
  show ?thesis using g t r by simp
qed

subsection \<open>Unknown tools and unknown methods\<close>

text \<open>
  Claim C8 says that every \<^verbatim>\<open>tools/call\<close> request whose name is not a registered tool
  is answered with the JSON-RPC error of code -32601. The code does so for a name the
  registry can be asked about (lemma \<open>tool_not_found\<close>), and answers every other method
  with the error \<^verbatim>\<open>Unknown method\<close> (lemma \<open>unknown_method\<close>), but not for every
  request: \<^verbatim>\<open>params\<close> is a dict of arbitrary values, and a name that is a list makes
  the membership test \<^verbatim>\<open>tool_name not in TOOLS\<close> raise \<^verbatim>\<open>TypeError\<close>; a request
  without \<^verbatim>\<open>params\<close> raises \<^verbatim>\<open>AttributeError\<close> before the name is read. Neither
  exception is an \<^verbatim>\<open>HTTPException\<close>, nothing catches them, and no JSON-RPC error is
  returned.
\<close>

theorem tools_call_raises_on_unhashable_name:
  "mcp_message cfg json_dumps env call_list_name =
     (Inl (Raised TypeError (''unhashable type: '' @ quoted ''list'')), [])
   \<and> mcp_message cfg json_dumps env call_without_params =
     (Inl (Raised AttributeError
        (quoted ''NoneType'' @ '' object has no attribute '' @ quoted ''get'')), [])
   \<and> unhandled (Raised TypeError msg) \<and> unhandled (Raised AttributeError msg)"
  by (simp add: mcp_message_def tools_call_def call_list_name_def call_without_params_def)

subsection \<open>The poll loop\<close>



subsection \<open>The safe-mode filter\<close>

text \<open>
  Claim C10. A call of the local-exec handler with a true \<open>safe_mode\<close> and a command
  string that contains one of the dangerous substrings (\<open>sublist d command\<close>: \<open>d\<close>
  occurs in \<open>command\<close> as a contiguous piece) returns
  \<^verbatim>\<open>{"error": "Command blocked by safe_mode", "command": command}\<close> and performs no
  event: the command is not given to a subprocess.
\<close>

theorem local_exec_safe_mode_blocks:
  assumes "truthy safe_mode" and "d \<in> set dangerous" and "sublist d command"
  shows "tool_local_exec env (JStr command) safe_mode =
    (Inr (JDict [(''error'', JStr ''Command blocked by safe_mode''),
                 (''command'', JStr command)]), [])"
  using assms by (simp add: tool_local_exec_def any_in_hit str_contains_sublist)

theorem local_exec_safe_mode_blocks_witness:
  "truthy (JBool True) \<and> ''rm -rf'' \<in> set dangerous \<and> sublist ''rm -rf'' ''sudo rm -rf /''
   \<and> tool_local_exec sample_handlers (JStr ''sudo rm -rf /'') (JBool True) =
       (Inr (JDict [(''error'', JStr ''Command blocked by safe_mode''),
                    (''command'', JStr ''sudo rm -rf /'')]), [])"
proof -
  have t: "truthy (JBool True)" by simp
  have d: "''rm -rf'' \<in> set dangerous" by (simp add: dangerous_def)
  have s: "sublist ''rm -rf'' ''sudo rm -rf /''" by (simp add: sublist_code)
  show ?thesis
    using t d s local_exec_safe_mode_blocks [OF t d s, of sample_handlers] by simp
qed

end
